theory Spec2Isabelle
  imports Complex_Main
begin

section \<open>Student grades: the pipeline of \<^verbatim>\<open>student_grades.py\<close>\<close>

text \<open>
  The program reads \<^verbatim>\<open>students.csv\<close>, builds one dictionary per data row,
  evaluates every dictionary (average, letter grade, minimum, maximum, range, pass or
  fail) and writes \<^verbatim>\<open>student_results.csv\<close>.

  Conventions of the embedding.
  \<^item> A Python dictionary is an association list; lookup is \<open>map_of\<close> and \<open>len\<close>
    counts the distinct keys.
  \<^item> A dictionary value is an \<open>int\<close> or a \<open>str\<close>, the two kinds of value the
    Reader stores.
  \<^item> Every exception is a value of \<open>py_error\<close>; a function that may raise returns
    \<open>py_error + 'a\<close>, with \<open>Inl\<close> the exception that leaves the function.
  \<^item> Every \<^verbatim>\<open>print\<close> appends one \<open>message\<close> to the output, which the functions
    return next to their result.
  \<^item> A Python \<^verbatim>\<open>float\<close> is idealised as an exact rational number: the binary
    representation error of \<^verbatim>\<open>/\<close> and \<^verbatim>\<open>round\<close>, and the finite range of a
    float, are outside the model.
  \<^item> The input file is the list of rows that \<^verbatim>\<open>csv.reader\<close> yields, or \<open>None\<close>
    when the file does not exist. The builtin \<^verbatim>\<open>int\<close> applied to a field is a
    parameter \<open>pint\<close> of the Reader, \<open>None\<close> standing for \<^verbatim>\<open>ValueError\<close>.
\<close>

subsection \<open>Values, exceptions, output\<close>

datatype pyval = IntV int | StrV string

datatype py_error =
    KeyError string
  | TypeError
  | ValueError
  | ZeroDivisionError
  | StopIteration
  | SystemExit int

datatype message =
    MissingDataRow "string list"
  | InvalidData "string list"
  | FileNotFoundMsg string
  | MissingDataKey string
  | ResultsWritten string
  | NoDataToWrite
  | ProcessingCompleted

type_synonym student = "(string \<times> pyval) list"

definition and_then :: "py_error + 'a \<Rightarrow> ('a \<Rightarrow> py_error + 'b) \<Rightarrow> py_error + 'b" where
  "and_then r f = (case r of Inl e \<Rightarrow> Inl e | Inr v \<Rightarrow> f v)"

text \<open>\<^verbatim>\<open>student[key]\<close>\<close>

definition getitem :: "student \<Rightarrow> string \<Rightarrow> py_error + pyval" where
  "getitem student k = (case map_of student k of None \<Rightarrow> Inl (KeyError k) | Some v \<Rightarrow> Inr v)"

text \<open>\<^verbatim>\<open>len(student)\<close>\<close>

definition dict_len :: "student \<Rightarrow> int" where
  "dict_len student = int (length (remdups (map fst student)))"

text \<open>\<^verbatim>\<open>a + b\<close>: integers add, strings concatenate, anything else is a TypeError.\<close>

fun py_add :: "pyval \<Rightarrow> pyval \<Rightarrow> py_error + pyval" where
  "py_add (IntV a) (IntV b) = Inr (IntV (a + b))"
| "py_add (StrV a) (StrV b) = Inr (StrV (a @ b))"
| "py_add _ _ = Inl TypeError"

text \<open>\<^verbatim>\<open>total / n\<close> with \<open>n\<close> an integer.\<close>

fun py_truediv :: "pyval \<Rightarrow> int \<Rightarrow> py_error + rat" where
  "py_truediv (IntV t) n = (if n = 0 then Inl ZeroDivisionError else Inr (of_int t / of_int n))"
| "py_truediv (StrV _) n = Inl TypeError"

text \<open>\<^verbatim>\<open>round(x, 2)\<close>: to the nearest multiple of 1/100, a tie going to the even one.\<close>

definition round_half_even :: "rat \<Rightarrow> int" where
  "round_half_even x =
     (let f = \<lfloor>x\<rfloor>; d = x - of_int f
      in if d < 1 / 2 then f
         else if 1 / 2 < d then f + 1
         else if even f then f else f + 1)"

definition py_round2 :: "rat \<Rightarrow> rat" where
  "py_round2 x = of_int (round_half_even (x * 100)) / 100"

subsection \<open>Reader\<close>

text \<open>
  The dictionary literal of \<^verbatim>\<open>read_student_data\<close>; \<open>None\<close> when one of the five
  conversions raises \<^verbatim>\<open>ValueError\<close>. Called on rows of at least 6 fields only.
\<close>

definition parse_row :: "(string \<Rightarrow> int option) \<Rightarrow> string list \<Rightarrow> student option" where
  "parse_row pint row =
     (case pint (row ! 1) of None \<Rightarrow> None | Some a \<Rightarrow>
      case pint (row ! 2) of None \<Rightarrow> None | Some b \<Rightarrow>
      case pint (row ! 3) of None \<Rightarrow> None | Some c \<Rightarrow>
      case pint (row ! 4) of None \<Rightarrow> None | Some d \<Rightarrow>
      case pint (row ! 5) of None \<Rightarrow> None | Some e \<Rightarrow>
        Some [(''name'', StrV (row ! 0)),
              (''cyber_security'', IntV a),
              (''data_science'', IntV b),
              (''computing_foundation'', IntV c),
              (''digital_literacy'', IntV d),
              (''software_foundation'', IntV e)])"

text \<open>The \<^verbatim>\<open>for row in csv_reader\<close> loop, with \<open>data\<close> and the output so far.\<close>

fun read_rows ::
  "(string \<Rightarrow> int option) \<Rightarrow> string list list \<Rightarrow> student list \<Rightarrow> message list
     \<Rightarrow> message list \<times> (py_error + student list)" where
  "read_rows pint [] data out = (out, Inr data)"
| "read_rows pint (row # rows) data out =
     (if length row < 6 then read_rows pint rows data (out @ [MissingDataRow row])
      else case parse_row pint row of
             None \<Rightarrow> (out @ [InvalidData row], Inl (SystemExit 1))
           | Some student \<Rightarrow> read_rows pint rows (data @ [student]) out)"

definition read_student_data ::
  "(string \<Rightarrow> int option) \<Rightarrow> string \<Rightarrow> string list list option
     \<Rightarrow> message list \<times> (py_error + student list)" where
  "read_student_data pint filename file =
     (case file of
        None \<Rightarrow> ([FileNotFoundMsg filename], Inl (SystemExit 1))
      | Some [] \<Rightarrow> ([], Inl StopIteration)
      | Some (header # rows) \<Rightarrow> read_rows pint rows [] [])"

subsection \<open>Evaluator\<close>

text \<open>The sum of the five scores, looked up and added from left to right.\<close>

definition scores_total :: "student \<Rightarrow> py_error + pyval" where
  "scores_total student =
     and_then (getitem student ''cyber_security'') (\<lambda>a.
     and_then (getitem student ''data_science'') (\<lambda>b.
     and_then (py_add a b) (\<lambda>t1.
     and_then (getitem student ''computing_foundation'') (\<lambda>c.
     and_then (py_add t1 c) (\<lambda>t2.
     and_then (getitem student ''digital_literacy'') (\<lambda>d.
     and_then (py_add t2 d) (\<lambda>t3.
     and_then (getitem student ''software_foundation'') (\<lambda>e.
     py_add t3 e))))))))"

text \<open>
  \<^verbatim>\<open>calculate_average\<close>: the body of the \<^verbatim>\<open>try\<close>, then the handler, which
  catches \<^verbatim>\<open>KeyError\<close> only. \<open>None\<close> is Python's \<^verbatim>\<open>None\<close>.
\<close>

definition calculate_average :: "student \<Rightarrow> message list \<times> (py_error + rat option)" where
  "calculate_average student =
     (case and_then (scores_total student) (\<lambda>total.
           and_then (py_truediv total (dict_len student - 1)) (\<lambda>average.
           Inr (py_round2 average))) of
        Inr r \<Rightarrow> ([], Inr (Some r))
      | Inl (KeyError k) \<Rightarrow> ([MissingDataKey k], Inr None)
      | Inl e \<Rightarrow> ([], Inl e))"

definition assign_grade :: "rat \<Rightarrow> string" where
  "assign_grade score =
     (if score \<ge> 80 then ''A''
      else if score \<ge> 70 then ''B''
      else if score \<ge> 60 then ''C''
      else if score \<ge> 50 then ''D''
      else if score \<ge> 40 then ''E''
      else ''F'')"

text \<open>\<^verbatim>\<open>min(xs)\<close> and \<^verbatim>\<open>max(xs)\<close> raise \<^verbatim>\<open>ValueError\<close> on an empty list.\<close>

definition py_min :: "int list \<Rightarrow> py_error + int" where
  "py_min xs = (case xs of [] \<Rightarrow> Inl ValueError | x # rest \<Rightarrow> Inr (fold min rest x))"

definition py_max :: "int list \<Rightarrow> py_error + int" where
  "py_max xs = (case xs of [] \<Rightarrow> Inl ValueError | x # rest \<Rightarrow> Inr (fold max rest x))"

definition calculate_min_max_range :: "int list \<Rightarrow> py_error + (int \<times> int \<times> int)" where
  "calculate_min_max_range student_scores =
     and_then (py_min student_scores) (\<lambda>min_score.
     and_then (py_max student_scores) (\<lambda>max_score.
     Inr (min_score, max_score, max_score - min_score)))"

subsection \<open>Aggregator\<close>

record student_results =
  name :: pyval
  cyber_security :: pyval
  data_science :: pyval
  computing_foundation :: pyval
  digital_literacy :: pyval
  software_foundation :: pyval
  average :: rat
  grade :: string
  min_score :: int
  max_score :: int
  score_range :: int
  pass_fail :: string

text \<open>The list \<^verbatim>\<open>student_scores\<close> built at the top of the loop body.\<close>

definition student_scores_of :: "student \<Rightarrow> py_error + pyval list" where
  "student_scores_of student =
     and_then (getitem student ''cyber_security'') (\<lambda>a.
     and_then (getitem student ''data_science'') (\<lambda>b.
     and_then (getitem student ''computing_foundation'') (\<lambda>c.
     and_then (getitem student ''digital_literacy'') (\<lambda>d.
     and_then (getitem student ''software_foundation'') (\<lambda>e.
     Inr [a, b, c, d, e])))))"

text \<open>
  The scores as integers. The list reaches \<^verbatim>\<open>calculate_min_max_range\<close> only after
  \<^verbatim>\<open>calculate_average\<close> has divided their sum, so each of them is an integer there;
  comparing or subtracting anything else is a TypeError.
\<close>

fun ints_of :: "pyval list \<Rightarrow> py_error + int list" where
  "ints_of [] = Inr []"
| "ints_of (IntV i # vs) = and_then (ints_of vs) (\<lambda>is. Inr (i # is))"
| "ints_of (StrV _ # vs) = Inl TypeError"

definition pass_fail_of :: "rat \<Rightarrow> string" where
  "pass_fail_of avg = (if avg \<ge> 40 then ''Congratulations, you passed!'' else ''Fail'')"

text \<open>The branch \<^verbatim>\<open>if average is not None\<close> of the loop body.\<close>

definition build_results :: "student \<Rightarrow> pyval list \<Rightarrow> rat \<Rightarrow> py_error + student_results" where
  "build_results student student_scores avg =
     and_then (ints_of student_scores) (\<lambda>scores.
     and_then (calculate_min_max_range scores) (\<lambda>(mn, mx, rg).
     and_then (getitem student ''name'') (\<lambda>n.
     and_then (getitem student ''cyber_security'') (\<lambda>a.
     and_then (getitem student ''data_science'') (\<lambda>b.
     and_then (getitem student ''computing_foundation'') (\<lambda>c.
     and_then (getitem student ''digital_literacy'') (\<lambda>d.
     and_then (getitem student ''software_foundation'') (\<lambda>e.
     Inr \<lparr>name = n, cyber_security = a, data_science = b, computing_foundation = c,
          digital_literacy = d, software_foundation = e, average = avg,
          grade = assign_grade avg, min_score = mn, max_score = mx, score_range = rg,
          pass_fail = pass_fail_of avg\<rparr>))))))))"

text \<open>
  One pass of the loop body: the exception that leaves it, or \<open>None\<close> when the
  record is left out, or the record's results.
\<close>

definition evaluate :: "student \<Rightarrow> message list \<times> (py_error + student_results option)" where
  "evaluate student =
     (case student_scores_of student of
        Inl e \<Rightarrow> ([], Inl e)
      | Inr student_scores \<Rightarrow>
          (case calculate_average student of
             (msgs, Inl e) \<Rightarrow> (msgs, Inl e)
           | (msgs, Inr None) \<Rightarrow> (msgs, Inr None)
           | (msgs, Inr (Some avg)) \<Rightarrow>
               (case build_results student student_scores avg of
                  Inl e \<Rightarrow> (msgs, Inl e)
                | Inr r \<Rightarrow> (msgs, Inr (Some r)))))"

text \<open>The \<^verbatim>\<open>for student in students_data\<close> loop, with \<open>results\<close> and the output so far.\<close>

fun process_loop ::
  "student list \<Rightarrow> student_results list \<Rightarrow> message list
     \<Rightarrow> message list \<times> (py_error + student_results list)" where
  "process_loop [] results out = (out, Inr results)"
| "process_loop (student # rest) results out =
     (case evaluate student of
        (msgs, Inl e) \<Rightarrow> (out @ msgs, Inl e)
      | (msgs, Inr None) \<Rightarrow> process_loop rest results (out @ msgs)
      | (msgs, Inr (Some r)) \<Rightarrow> process_loop rest (results @ [r]) (out @ msgs))"

definition process_student_results ::
  "student list \<Rightarrow> message list \<times> (py_error + student_results list)" where
  "process_student_results students_data = process_loop students_data [] []"

subsection \<open>Writer and main program\<close>

text \<open>A written file: its name, its header row and its records, in order.\<close>

type_synonym csv_file = "string \<times> string list \<times> student_results list"

definition write_results_to_csv ::
  "student_results list \<Rightarrow> string \<Rightarrow> message list \<times> csv_file option" where
  "write_results_to_csv results filename =
     (if results \<noteq> [] then
        ([ResultsWritten filename],
         Some (filename,
               [''name'', ''cyber_security'', ''data_science'', ''computing_foundation'',
                ''digital_literacy'', ''software_foundation'', ''average'', ''grade'',
                ''min_score'', ''max_score'', ''score_range'', ''pass_fail''],
               results))
      else ([NoDataToWrite], None))"

text \<open>How the process ends: an exit status, or an exception nobody caught.\<close>

datatype ending = Exit int | Uncaught py_error

fun ending_of :: "py_error \<Rightarrow> ending" where
  "ending_of (SystemExit n) = Exit n"
| "ending_of e = Uncaught e"

text \<open>The interpreter's exit status: 1 after a traceback.\<close>

fun exit_status :: "ending \<Rightarrow> int" where
  "exit_status (Exit n) = n"
| "exit_status (Uncaught _) = 1"

record run =
  stdout :: "message list"
  written :: "csv_file option"
  ending :: ending

definition main :: "(string \<Rightarrow> int option) \<Rightarrow> string list list option \<Rightarrow> run" where
  "main pint file =
     (case read_student_data pint ''students.csv'' file of
        (out, Inl e) \<Rightarrow> \<lparr>stdout = out, written = None, ending = ending_of e\<rparr>
      | (out, Inr students_data) \<Rightarrow>
          if students_data \<noteq> [] then
            (case process_student_results students_data of
               (out2, Inl e) \<Rightarrow> \<lparr>stdout = out @ out2, written = None, ending = ending_of e\<rparr>
             | (out2, Inr results) \<Rightarrow>
                 (case write_results_to_csv results ''student_results.csv'' of
                    (out3, w) \<Rightarrow>
                      \<lparr>stdout = out @ out2 @ out3 @ [ProcessingCompleted], written = w,
                       ending = Exit 0\<rparr>))
          else \<lparr>stdout = out @ [ProcessingCompleted], written = None, ending = Exit 0\<rparr>)"

text \<open>
  A decimal reader for the examples: an optional sign and ASCII digits, the fragment
  of \<^verbatim>\<open>int\<close> the sample files use.
\<close>

definition digit_of :: "char \<Rightarrow> int option" where
  "digit_of c =
     (let code = (of_char c :: nat)
      in if 48 \<le> code \<and> code \<le> 57 then Some (int code - 48) else None)"

fun digits_value :: "string \<Rightarrow> int \<Rightarrow> int option" where
  "digits_value [] acc = Some acc"
| "digits_value (c # cs) acc =
     (case digit_of c of None \<Rightarrow> None | Some d \<Rightarrow> digits_value cs (10 * acc + d))"

fun decimal_int :: "string \<Rightarrow> int option" where
  "decimal_int [] = None"
| "decimal_int (c # cs) =
     (if c = CHR ''-'' then (if cs = [] then None else map_option uminus (digits_value cs 0))
      else if c = CHR ''+'' then (if cs = [] then None else digits_value cs 0)
      else digits_value (c # cs) 0)"

text \<open>The header row of the sample files.\<close>

definition sample_header :: "string list" where
  "sample_header = [''name'', ''cyber_security'', ''data_science'', ''computing_foundation'',
     ''digital_literacy'', ''software_foundation'']"

text \<open>The record of the row \<^verbatim>\<open>Alice,90,85,70,95,100\<close>.\<close>

definition alice :: student where
  "alice = [(''name'', StrV ''Alice''), (''cyber_security'', IntV 90), (''data_science'', IntV 85),
     (''computing_foundation'', IntV 70), (''digital_literacy'', IntV 95),
     (''software_foundation'', IntV 100)]"

subsection \<open>Notions used in the properties\<close>



text \<open>The name and the five scores of a results record are those of the dictionary.\<close>

definition same_fields :: "student \<Rightarrow> student_results \<Rightarrow> bool" where
  "same_fields student r \<longleftrightarrow>
        map_of student ''name'' = Some (name r)
      \<and> map_of student ''cyber_security'' = Some (cyber_security r)
      \<and> map_of student ''data_science'' = Some (data_science r)
      \<and> map_of student ''computing_foundation'' = Some (computing_foundation r)
      \<and> map_of student ''digital_literacy'' = Some (digital_literacy r)
      \<and> map_of student ''software_foundation'' = Some (software_foundation r)"

text \<open>
  Sample records: the row \<^verbatim>\<open>Bob,30,40,35,20,25\<close>, a record without
  \<^verbatim>\<open>software_foundation\<close>, and the results listed for Alice and Bob.
\<close>

definition bob :: student where
  "bob = [(''name'', StrV ''Bob''), (''cyber_security'', IntV 30), (''data_science'', IntV 40),
     (''computing_foundation'', IntV 35), (''digital_literacy'', IntV 20),
     (''software_foundation'', IntV 25)]"

definition ann :: student where
  "ann = [(''name'', StrV ''Ann''), (''cyber_security'', IntV 50), (''data_science'', IntV 60),
     (''computing_foundation'', IntV 70), (''digital_literacy'', IntV 80)]"

definition alice_results :: student_results where
  "alice_results =
     \<lparr>name = StrV ''Alice'', cyber_security = IntV 90, data_science = IntV 85,
      computing_foundation = IntV 70, digital_literacy = IntV 95, software_foundation = IntV 100,
      average = 88, grade = ''A'', min_score = 70, max_score = 100, score_range = 30,
      pass_fail = ''Congratulations, you passed!''\<rparr>"

definition bob_results :: student_results where
  "bob_results =
     \<lparr>name = StrV ''Bob'', cyber_security = IntV 30, data_science = IntV 40,
      computing_foundation = IntV 35, digital_literacy = IntV 20, software_foundation = IntV 25,
      average = 30, grade = ''F'', min_score = 20, max_score = 40, score_range = 20,
      pass_fail = ''Fail''\<rparr>"

section \<open>Properties\<close>

subsection \<open>Minimum, maximum and range\<close>

lemma fold_min_Min: "fold min rest (x::int) = Min (set (x # rest))"
  using Min.set_eq_fold [of x rest] by simp

lemma fold_max_Max: "fold max rest (x::int) = Max (set (x # rest))"
  using Max.set_eq_fold [of x rest] by simp

text \<open>
  C8. On every non-empty list of integer scores \<^verbatim>\<open>calculate_min_max_range\<close>
  returns the least score, the greatest score and their difference; the least is at
  most the greatest and the difference is not negative.
\<close>

theorem min_max_range_correct:
  "student_scores \<noteq> [] \<Longrightarrow>
     calculate_min_max_range student_scores =
       Inr (Min (set student_scores), Max (set student_scores),
            Max (set student_scores) - Min (set student_scores))
     \<and> Min (set student_scores) \<le> Max (set student_scores)
     \<and> 0 \<le> Max (set student_scores) - Min (set student_scores)"
proof -
  assume ne: "student_scores \<noteq> []"
  then obtain x rest where xs: "student_scores = x # rest"
    by (cases student_scores) auto
  have le: "Min (set student_scores) \<le> Max (set student_scores)"
  proof -
    have "x \<in> set student_scores" by (simp add: xs)
    then have "Min (set student_scores) \<le> x" and "x \<le> Max (set student_scores)"
      by (simp_all del: set_simps)
    then show ?thesis by linarith
  qed
  have "calculate_min_max_range student_scores =
       Inr (Min (set student_scores), Max (set student_scores),
            Max (set student_scores) - Min (set student_scores))"
    unfolding xs calculate_min_max_range_def py_min_def py_max_def and_then_def
    by (simp add: fold_min_Min fold_max_Max del: set_simps)
  with le show ?thesis by simp
qed

theorem min_max_range_witness:
  "calculate_min_max_range [90, 85, 70, 95, 100] = Inr (70, 100, 30)"
  using min_max_range_correct [of "[90, 85, 70, 95, 100]"] by simp

subsection \<open>Letter grade and pass indicator\<close>

text \<open>
  C4. \<^verbatim>\<open>assign_grade\<close> is a total function of the average with inclusive lower
  bounds that do not overlap: at least 80 is A, from 70 below 80 is B, from 60 below 70
  is C, from 50 below 60 is D, from 40 below 50 is E, below 40 is F. The pass label is
  given exactly when the average is at least 40, the fail label exactly below 40.
\<close>

theorem assign_grade_thresholds:
  "(80 \<le> score \<longrightarrow> assign_grade score = ''A'')
   \<and> (70 \<le> score \<and> score < 80 \<longrightarrow> assign_grade score = ''B'')
   \<and> (60 \<le> score \<and> score < 70 \<longrightarrow> assign_grade score = ''C'')
   \<and> (50 \<le> score \<and> score < 60 \<longrightarrow> assign_grade score = ''D'')
   \<and> (40 \<le> score \<and> score < 50 \<longrightarrow> assign_grade score = ''E'')
   \<and> (score < 40 \<longrightarrow> assign_grade score = ''F'')
   \<and> (pass_fail_of score = ''Congratulations, you passed!'' \<longleftrightarrow> 40 \<le> score)
   \<and> (pass_fail_of score = ''Fail'' \<longleftrightarrow> score < 40)"
  by (simp add: assign_grade_def pass_fail_of_def)

text \<open>The boundary values the specification lists: 40, 39.99, 80 and 79.99.\<close>

theorem assign_grade_boundaries:
  "assign_grade 40 = ''E'' \<and> pass_fail_of 40 = ''Congratulations, you passed!''
   \<and> assign_grade (3999 / 100) = ''F'' \<and> pass_fail_of (3999 / 100) = ''Fail''
   \<and> assign_grade 80 = ''A'' \<and> assign_grade (7999 / 100) = ''B''"
  using assign_grade_thresholds [of 40] assign_grade_thresholds [of "3999 / 100"]
    assign_grade_thresholds [of 80] assign_grade_thresholds [of "7999 / 100"]
  by simp

subsection \<open>Files without data rows\<close>

text \<open>
  C10. On a file that exists and holds no row at all, reading the header raises
  \<^verbatim>\<open>StopIteration\<close>; nothing catches it, so the Reader returns no list and the run
  ends with that exception rather than through \<^verbatim>\<open>sys.exit\<close>.
\<close>

theorem empty_file_stop_iteration:
  "read_student_data pint filename (Some []) = ([], Inl StopIteration)
   \<and> main pint (Some []) = \<lparr>stdout = [], written = None, ending = Uncaught StopIteration\<rparr>"
  by (simp add: read_student_data_def main_def)

text \<open>
  C2, as the program behaves. On a file holding the header row only, the run ends
  with exit status zero and writes no file; the only line printed is the completion
  message, because the main program calls neither the Aggregator nor the Writer when
  the Reader's list is empty.
\<close>

theorem header_only_run:
  "main pint (Some [header]) =
     \<lparr>stdout = [ProcessingCompleted], written = None, ending = Exit 0\<rparr>"
  by (simp add: read_student_data_def main_def)

text \<open>
  C2, as stated, fails: on a header-only file the Writer's message for an empty
  result list is not printed.
\<close>

theorem header_only_no_diagnostic:
  "\<not> (exit_status (ending (main decimal_int (Some [[''name'', ''cyber_security'']]))) = 0
      \<and> written (main decimal_int (Some [[''name'', ''cyber_security'']])) = None
      \<and> NoDataToWrite \<in> set (stdout (main decimal_int (Some [[''name'', ''cyber_security'']]))))"
  by (simp add: read_student_data_def main_def)

subsection \<open>Reader: short rows and invalid scores\<close>

text \<open>
  The loop of the Reader with any accumulators is the loop started afresh, with the
  accumulators put in front; and reading two lists of rows one after the other is
  reading the first and, unless it failed, going on with the second.
\<close>

lemma read_rows_acc:
  "read_rows pint rows data out =
     (case read_rows pint rows [] [] of
        (out', Inl e) \<Rightarrow> (out @ out', Inl e)
      | (out', Inr data') \<Rightarrow> (out @ out', Inr (data @ data')))"
proof (induction rows arbitrary: data out)
  case Nil
  show ?case by simp
next
  case (Cons row rows)
  show ?case
  proof (cases "length row < 6")
    case True
    then show ?thesis
      using Cons.IH [of data "out @ [MissingDataRow row]"] Cons.IH [of "[]" "[MissingDataRow row]"]
      by (auto split: prod.splits sum.splits)
  next
    case False
    show ?thesis
    proof (cases "parse_row pint row")
      case None
      with False show ?thesis by simp
    next
      case (Some student)
      with False show ?thesis
        using Cons.IH [of "data @ [student]" out] Cons.IH [of "[student]" "[]"]
        by (auto split: prod.splits sum.splits)
    qed
  qed
qed

lemma read_rows_append:
  "read_rows pint (pre @ post) data out =
     (case read_rows pint pre data out of
        (out', Inl e) \<Rightarrow> (out', Inl e)
      | (out', Inr data') \<Rightarrow> read_rows pint post data' out')"
  by (induction pre arbitrary: data out) (auto split: option.splits)

lemma read_rows_no_invalid:
  "\<forall>r\<in>set pre. length r < 6 \<or> parse_row pint r \<noteq> None \<Longrightarrow>
   read_rows pint pre data out =
     (out @ map MissingDataRow (filter (\<lambda>r. length r < 6) pre),
      Inr (data @ map (\<lambda>r. the (parse_row pint r)) (filter (\<lambda>r. \<not> length r < 6) pre)))"
  by (induction pre arbitrary: data out) (auto split: option.splits)

lemma parse_row_None_iff:
  "parse_row pint row = None \<longleftrightarrow> (\<exists>i\<in>{1, 2, 3, 4, 5}. pint (row ! i) = None)"
  by (auto simp: parse_row_def split: option.splits)

text \<open>
  C7. A data row of fewer than 6 fields is skipped with a diagnostic and the Reader
  goes on: when the rows before it are read without a fatal error, the diagnostic for
  the row comes right after their output, the rows after it are read as if the row
  were not in the file, the Reader's result is that of the file without the row, and
  the row itself ends nothing (with no row after it the Reader returns the records
  read so far).
\<close>

theorem short_row_skipped:
  assumes short: "length row < 6"
    and pre: "read_student_data pint filename (Some (header # pre)) = (out1, Inr data1)"
  shows "\<exists>out2 res.
           read_student_data pint filename (Some (header # pre @ row # post))
             = (out1 @ MissingDataRow row # out2, res)
         \<and> read_student_data pint filename (Some (header # pre @ post)) = (out1 @ out2, res)
         \<and> read_student_data pint filename (Some (header # pre @ [row]))
             = (out1 @ [MissingDataRow row], Inr data1)"
proof -
  from pre have p: "read_rows pint pre [] [] = (out1, Inr data1)"
    by (simp add: read_student_data_def)
  obtain out2 res2 where q: "read_rows pint post [] [] = (out2, res2)"
    by (cases "read_rows pint post [] []") auto
  define res where "res = (case res2 of Inl e \<Rightarrow> Inl e | Inr d \<Rightarrow> Inr (data1 @ d))"
  have a: "read_rows pint post data1 (out1 @ [MissingDataRow row]) = (out1 @ MissingDataRow row # out2, res)"
    using read_rows_acc [of pint post data1 "out1 @ [MissingDataRow row]"] q
    by (simp add: res_def split: sum.splits)
  have b: "read_rows pint post data1 out1 = (out1 @ out2, res)"
    using read_rows_acc [of pint post data1 out1] q
    by (simp add: res_def split: sum.splits)
  have "read_rows pint (pre @ row # post) [] [] = (out1 @ MissingDataRow row # out2, res)"
    using short p a by (simp add: read_rows_append)
  moreover have "read_rows pint (pre @ post) [] [] = (out1 @ out2, res)"
    using p b by (simp add: read_rows_append)
  moreover have "read_rows pint (pre @ [row]) [] [] = (out1 @ [MissingDataRow row], Inr data1)"
    using short p by (simp add: read_rows_append)
  ultimately show ?thesis
    by (simp add: read_student_data_def)
qed

theorem short_row_skipped_witness:
  "read_student_data decimal_int ''students.csv''
     (Some [sample_header, [''Bob'', ''30'', ''40'', ''35'', ''20'', ''25''],
            [''Dee'', ''1'', ''2'', ''3'']])
   = ([MissingDataRow [''Dee'', ''1'', ''2'', ''3'']],
      Inr [[(''name'', StrV ''Bob''), (''cyber_security'', IntV 30), (''data_science'', IntV 40),
            (''computing_foundation'', IntV 35), (''digital_literacy'', IntV 20),
            (''software_foundation'', IntV 25)]])"
proof -
  have pre: "read_student_data decimal_int ''students.csv''
     (Some (sample_header # [[''Bob'', ''30'', ''40'', ''35'', ''20'', ''25'']]))
   = ([], Inr [[(''name'', StrV ''Bob''), (''cyber_security'', IntV 30), (''data_science'', IntV 40),
            (''computing_foundation'', IntV 35), (''digital_literacy'', IntV 20),
            (''software_foundation'', IntV 25)]])"
    by (simp add: read_student_data_def parse_row_def digit_of_def)
  have short: "length [''Dee'', ''1'', ''2'', ''3''] < 6" by simp
  from short_row_skipped [OF short pre, of "[]"] show ?thesis
    by (elim exE conjE) simp
qed

text \<open>
  Rows none of which is invalid are all read: the output is the diagnostics of the
  short ones, the result the dictionaries of the others. An invalid row after them ends
  the run at once.
\<close>

lemma invalid_row_aborts:
  assumes pre: "\<forall>r\<in>set pre. length r < 6 \<or> parse_row pint r \<noteq> None"
    and long: "\<not> length bad < 6" and bad: "parse_row pint bad = None"
  shows "main pint (Some (header # pre @ bad # post)) =
           \<lparr>stdout = map MissingDataRow (filter (\<lambda>r. length r < 6) pre) @ [InvalidData bad],
            written = None, ending = Exit 1\<rparr>"
  using long bad
  by (simp add: main_def read_student_data_def read_rows_append read_rows_no_invalid [OF pre])

text \<open>
  C5. When some data row of at least 6 fields has a score field that does not parse,
  the run ends with exit status 1 and writes no file. The last line printed names the
  first such row, the lines before it are the diagnostics of the short rows that
  precede it, and the rows after it are not read: the run is the same as on the file
  cut after that row.
\<close>

theorem invalid_score_aborts:
  assumes "\<exists>row\<in>set rows. \<not> length row < 6 \<and> (\<exists>i\<in>{1, 2, 3, 4, 5}. pint (row ! i) = None)"
  shows "ending (main pint (Some (header # rows))) = Exit 1
       \<and> exit_status (ending (main pint (Some (header # rows)))) \<noteq> 0
       \<and> written (main pint (Some (header # rows))) = None
       \<and> (\<exists>pre bad post. rows = pre @ bad # post
            \<and> (\<forall>r\<in>set pre. length r < 6 \<or> (\<forall>i\<in>{1, 2, 3, 4, 5}. pint (r ! i) \<noteq> None))
            \<and> \<not> length bad < 6 \<and> (\<exists>i\<in>{1, 2, 3, 4, 5}. pint (bad ! i) = None)
            \<and> stdout (main pint (Some (header # rows)))
                = map MissingDataRow (filter (\<lambda>r. length r < 6) pre) @ [InvalidData bad]
            \<and> main pint (Some (header # rows)) = main pint (Some (header # pre @ [bad])))"
proof -
  let ?inv = "\<lambda>row. \<not> length row < 6 \<and> parse_row pint row = None"
  from assms have "\<exists>row\<in>set rows. ?inv row"
    by (simp only: parse_row_None_iff)
  then obtain pre bad post where
    rows: "rows = pre @ bad # post" and b: "?inv bad" and p: "\<forall>r\<in>set pre. \<not> ?inv r"
    using split_list_first_prop [of rows ?inv] by blast
  from p have p': "\<forall>r\<in>set pre. length r < 6 \<or> parse_row pint r \<noteq> None" by auto
  have m: "main pint (Some (header # rows)) =
           \<lparr>stdout = map MissingDataRow (filter (\<lambda>r. length r < 6) pre) @ [InvalidData bad],
            written = None, ending = Exit 1\<rparr>"
    unfolding rows using invalid_row_aborts [OF p', of bad header post] b by simp
  have m': "main pint (Some (header # pre @ [bad])) =
           \<lparr>stdout = map MissingDataRow (filter (\<lambda>r. length r < 6) pre) @ [InvalidData bad],
            written = None, ending = Exit 1\<rparr>"
    using invalid_row_aborts [OF p', of bad header "[]"] b by simp
  have q: "\<forall>r\<in>set pre. length r < 6 \<or> (\<forall>i\<in>{1, 2, 3, 4, 5}. pint (r ! i) \<noteq> None)"
    using p' by (auto simp: parse_row_None_iff)
  have bb: "\<not> length bad < 6 \<and> (\<exists>i\<in>{1, 2, 3, 4, 5}. pint (bad ! i) = None)"
    using b by (simp add: parse_row_None_iff)
  have "\<exists>pre bad post. rows = pre @ bad # post
            \<and> (\<forall>r\<in>set pre. length r < 6 \<or> (\<forall>i\<in>{1, 2, 3, 4, 5}. pint (r ! i) \<noteq> None))
            \<and> \<not> length bad < 6 \<and> (\<exists>i\<in>{1, 2, 3, 4, 5}. pint (bad ! i) = None)
            \<and> stdout (main pint (Some (header # rows)))
                = map MissingDataRow (filter (\<lambda>r. length r < 6) pre) @ [InvalidData bad]
            \<and> main pint (Some (header # rows)) = main pint (Some (header # pre @ [bad]))"
    using rows q bb m m' by (intro exI [of _ pre] exI [of _ bad] exI [of _ post]) simp
  with m show ?thesis by simp
qed

theorem invalid_score_aborts_witness:
  "exit_status (ending (main decimal_int
     (Some [sample_header, [''Dee'', ''1'', ''2'', ''3''],
            [''Carl'', ''abc'', ''50'', ''60'', ''70'', ''80''],
            [''Bob'', ''30'', ''40'', ''35'', ''20'', ''25'']]))) \<noteq> 0
   \<and> written (main decimal_int
     (Some [sample_header, [''Dee'', ''1'', ''2'', ''3''],
            [''Carl'', ''abc'', ''50'', ''60'', ''70'', ''80''],
            [''Bob'', ''30'', ''40'', ''35'', ''20'', ''25'']])) = None"
proof -
  let ?rows = "[[''Dee'', ''1'', ''2'', ''3''], [''Carl'', ''abc'', ''50'', ''60'', ''70'', ''80''],
            [''Bob'', ''30'', ''40'', ''35'', ''20'', ''25'']]"
  have h: "\<exists>row\<in>set ?rows. \<not> length row < 6 \<and> (\<exists>i\<in>{1, 2, 3, 4, 5}. decimal_int (row ! i) = None)"
    by (simp add: digit_of_def)
  from invalid_score_aborts [OF h, of sample_header] show ?thesis
    by (elim conjE) simp
qed

subsection \<open>Average\<close>


lemma round_half_even_of_int: "round_half_even (of_int k) = k"
  by (simp add: round_half_even_def)






lemma py_round2_fifth: "py_round2 (of_int t / 5) = of_int t / 5"
proof -
  have "(of_int t / 5 :: rat) * 100 = of_int (20 * t)" by simp
  then have "round_half_even (of_int t / 5 * 100) = 20 * t"
    by (simp only: round_half_even_of_int)
  then show ?thesis
    by (simp add: py_round2_def)
qed

text \<open>Lookups, and the sum and the average of a record whose five scores are integers.\<close>

lemma getitem_Some: "map_of student k = Some v \<Longrightarrow> getitem student k = Inr v"
  by (simp add: getitem_def)

lemma getitem_None: "map_of student k = None \<Longrightarrow> getitem student k = Inl (KeyError k)"
  by (simp add: getitem_def)

lemma getitem_Inr_iff: "getitem student k = Inr v \<longleftrightarrow> map_of student k = Some v"
  by (simp add: getitem_def split: option.splits)





subsection \<open>Aggregator\<close>

text \<open>
  Once the five scores have been looked up, the sum raises no \<^verbatim>\<open>KeyError\<close>, so
  \<^verbatim>\<open>calculate_average\<close> does not return \<^verbatim>\<open>None\<close> and the loop body never leaves
  a record out: it appends a result or raises.
\<close>

lemma student_scores_of_Inr_iff:
  "student_scores_of student = Inr vs \<longleftrightarrow>
     (\<exists>a b c d e.
        map_of student ''cyber_security'' = Some a
      \<and> map_of student ''data_science'' = Some b
      \<and> map_of student ''computing_foundation'' = Some c
      \<and> map_of student ''digital_literacy'' = Some d
      \<and> map_of student ''software_foundation'' = Some e
      \<and> vs = [a, b, c, d, e])"
  by (auto simp: student_scores_of_def and_then_def getitem_def split: option.splits)

lemma py_add_error: "py_add x y = Inl err \<Longrightarrow> err = TypeError"
  by (cases x; cases y) simp_all

lemma py_truediv_error: "py_truediv x n = Inl err \<Longrightarrow> err = TypeError \<or> err = ZeroDivisionError"
  by (cases x) (simp_all split: if_splits)

lemma scores_total_no_KeyError:
  assumes "student_scores_of student = Inr vs"
  shows "scores_total student \<noteq> Inl (KeyError k)"
proof -
  from assms obtain a b c d e where
    "getitem student ''cyber_security'' = Inr a" "getitem student ''data_science'' = Inr b"
    "getitem student ''computing_foundation'' = Inr c" "getitem student ''digital_literacy'' = Inr d"
    "getitem student ''software_foundation'' = Inr e"
    by (auto simp: student_scores_of_Inr_iff getitem_Some)
  then show ?thesis
    by (auto simp: scores_total_def and_then_def split: sum.splits dest: py_add_error)
qed

lemma calculate_average_no_None:
  assumes "student_scores_of student = Inr vs"
  shows "snd (calculate_average student) \<noteq> Inr None"
proof -
  have "scores_total student \<noteq> Inl (KeyError k)" for k
    using assms by (rule scores_total_no_KeyError)
  then show ?thesis
    by (auto simp: calculate_average_def and_then_def
        split: sum.splits py_error.splits dest: py_truediv_error)
qed

lemma evaluate_no_None: "snd (evaluate student) \<noteq> Inr None"
proof (cases "student_scores_of student")
  case (Inl e)
  then show ?thesis by (simp add: evaluate_def)
next
  case (Inr vs)
  from calculate_average_no_None [OF Inr] Inr show ?thesis
    by (auto simp: evaluate_def split: prod.splits sum.splits option.splits)
qed

lemma evaluate_missing_score:
  assumes "k \<in> {''cyber_security'', ''data_science'', ''computing_foundation'',
                 ''digital_literacy'', ''software_foundation''}"
    and "map_of student k = None"
  shows "\<exists>k'. evaluate student = ([], Inl (KeyError k'))"
  using assms
  by (auto simp: evaluate_def student_scores_of_def and_then_def getitem_def split: option.splits)

text \<open>A result carries the name and the scores of the record it comes from.\<close>

lemma build_results_fields:
  "build_results student vs avg = Inr r \<Longrightarrow> same_fields student r"
  unfolding build_results_def and_then_def getitem_def same_fields_def
  by (auto split: sum.splits option.splits prod.splits)

lemma evaluate_fields:
  "evaluate student = (msgs, Inr (Some r)) \<Longrightarrow> same_fields student r"
  by (auto simp: evaluate_def split: sum.splits option.splits prod.splits
      dest: build_results_fields)

text \<open>
  When the loop returns, the list has grown by one result per record, in the order of
  the records.
\<close>

lemma process_loop_pairs:
  "process_loop students results out = (out', Inr results') \<Longrightarrow>
     \<exists>new. results' = results @ new
        \<and> list_all2 (\<lambda>s r. \<exists>msgs. evaluate s = (msgs, Inr (Some r))) students new"
proof (induction students arbitrary: results out)
  case Nil
  then show ?case by simp
next
  case (Cons student rest)
  obtain msgs res where ev: "evaluate student = (msgs, res)"
    by (cases "evaluate student") auto
  show ?case
  proof (cases res)
    case (Inl e)
    with Cons.prems ev show ?thesis by simp
  next
    case (Inr opt)
    show ?thesis
    proof (cases opt)
      case None
      with Inr ev evaluate_no_None [of student] show ?thesis by simp
    next
      case (Some r)
      with Inr ev Cons.prems
      have "process_loop rest (results @ [r]) (out @ msgs) = (out', Inr results')"
        by simp
      from Cons.IH [OF this] obtain new where
        "results' = (results @ [r]) @ new"
        "list_all2 (\<lambda>s r. \<exists>msgs. evaluate s = (msgs, Inr (Some r))) rest new"
        by blast
      with Some Inr ev show ?thesis
        by (intro exI [of _ "r # new"]) auto
    qed
  qed
qed





text \<open>The sample records, evaluated.\<close>

lemmas evaluate_unfold =
  evaluate_def student_scores_of_def calculate_average_def scores_total_def build_results_def
  calculate_min_max_range_def py_min_def py_max_def and_then_def getitem_def dict_len_def
  py_round2_def round_half_even_def assign_grade_def pass_fail_of_def

lemma evaluate_alice: "evaluate alice = ([], Inr (Some alice_results))"
  by (simp add: alice_def alice_results_def evaluate_unfold)

lemma evaluate_bob: "evaluate bob = ([], Inr (Some bob_results))"
  by (simp add: bob_def bob_results_def evaluate_unfold)

lemma evaluate_ann: "evaluate ann = ([], Inl (KeyError ''software_foundation''))"
  by (simp add: ann_def evaluate_unfold)

text \<open>
  The derived fields of a result: minimum, maximum and range of the five scores, the
  grade and the pass label of the average.
\<close>

lemma evaluate_derived:
  assumes "evaluate student = (msgs, Inr (Some r))"
  shows "\<exists>a b c d e.
           cyber_security r = IntV a \<and> data_science r = IntV b \<and> computing_foundation r = IntV c
         \<and> digital_literacy r = IntV d \<and> software_foundation r = IntV e
         \<and> min_score r = Min {a, b, c, d, e} \<and> max_score r = Max {a, b, c, d, e}
         \<and> score_range r = max_score r - min_score r
         \<and> grade r = assign_grade (average r) \<and> pass_fail r = pass_fail_of (average r)"
proof -
  from assms obtain vs avg where
    sc: "student_scores_of student = Inr vs" and b: "build_results student vs avg = Inr r"
    by (auto simp: evaluate_def split: sum.splits option.splits prod.splits)
  from sc obtain a b c d e where
    l: "map_of student ''cyber_security'' = Some a" "map_of student ''data_science'' = Some b"
      "map_of student ''computing_foundation'' = Some c" "map_of student ''digital_literacy'' = Some d"
      "map_of student ''software_foundation'' = Some e"
    and vs: "vs = [a, b, c, d, e]"
    by (auto simp: student_scores_of_Inr_iff)
  from b obtain ints where ints: "ints_of vs = Inr ints"
    by (auto simp: build_results_def and_then_def split: sum.splits)
  with vs obtain a' b' c' d' e' where
    v: "a = IntV a'" "b = IntV b'" "c = IntV c'" "d = IntV d'" "e = IntV e'"
    and iv: "ints = [a', b', c', d', e']"
    by (cases a; cases b; cases c; cases d; cases e) (auto simp: and_then_def)
  have m: "calculate_min_max_range ints =
      Inr (Min {a', b', c', d', e'}, Max {a', b', c', d', e'},
           Max {a', b', c', d', e'} - Min {a', b', c', d', e'})"
    unfolding iv calculate_min_max_range_def py_min_def py_max_def and_then_def
    by (simp add: fold_min_Min fold_max_Max del: fold_simps)
  have g: "getitem student ''cyber_security'' = Inr a" "getitem student ''data_science'' = Inr b"
    "getitem student ''computing_foundation'' = Inr c" "getitem student ''digital_literacy'' = Inr d"
    "getitem student ''software_foundation'' = Inr e"
    using l by (simp_all add: getitem_Some)
  have "build_results student vs avg =
      and_then (getitem student ''name'') (\<lambda>n.
        Inr \<lparr>name = n, cyber_security = a, data_science = b, computing_foundation = c,
          digital_literacy = d, software_foundation = e, average = avg,
          grade = assign_grade avg, min_score = Min {a', b', c', d', e'},
          max_score = Max {a', b', c', d', e'},
          score_range = Max {a', b', c', d', e'} - Min {a', b', c', d', e'},
          pass_fail = pass_fail_of avg\<rparr>)"
    by (simp add: build_results_def ints m g and_then_def)
  with b obtain n where
    "r = \<lparr>name = n, cyber_security = a, data_science = b, computing_foundation = c,
          digital_literacy = d, software_foundation = e, average = avg,
          grade = assign_grade avg, min_score = Min {a', b', c', d', e'},
          max_score = Max {a', b', c', d', e'},
          score_range = Max {a', b', c', d', e'} - Min {a', b', c', d', e'},
          pass_fail = pass_fail_of avg\<rparr>"
    by (cases "getitem student ''name''") (auto simp: and_then_def)
  with v show ?thesis by simp
qed

text \<open>A record that lacks a score field makes the whole call raise, wherever it stands.\<close>

lemma process_loop_Inr_evaluate:
  assumes "process_loop students results out = (out', Inr results')" and "s \<in> set students"
  shows "\<exists>msgs r. evaluate s = (msgs, Inr (Some r))"
proof -
  from process_loop_pairs [OF assms(1)] obtain new where
    "list_all2 (\<lambda>s r. \<exists>msgs. evaluate s = (msgs, Inr (Some r))) students new"
    by blast
  with assms(2) show ?thesis
    by (auto simp: list_all2_conv_all_nth in_set_conv_nth)
qed

lemma missing_score_never_returns:
  assumes "k \<in> {''cyber_security'', ''data_science'', ''computing_foundation'',
                 ''digital_literacy'', ''software_foundation''}"
    and "map_of s k = None" and "s \<in> set students"
  shows "\<exists>out e. process_student_results students = (out, Inl e)"
proof -
  obtain out res where p: "process_student_results students = (out, res)"
    by (cases "process_student_results students") auto
  show ?thesis
  proof (cases res)
    case (Inl e)
    with p show ?thesis by blast
  next
    case (Inr results)
    with p have "process_loop students [] [] = (out, Inr results)"
      by (simp add: process_student_results_def)
    from process_loop_Inr_evaluate [OF this assms(3)] evaluate_missing_score [OF assms(1,2)]
    show ?thesis by auto
  qed
qed

text \<open>
  C1. On a record that lacks \<^verbatim>\<open>software_foundation\<close> the call of
  \<^verbatim>\<open>process_student_results\<close> ends with \<^verbatim>\<open>KeyError\<close> and prints nothing, alone
  or with a complete record before or after it, because the list of scores is built
  before \<^verbatim>\<open>calculate_average\<close> is called; \<^verbatim>\<open>calculate_average\<close> itself, on the same
  record, prints the diagnostic and returns \<^verbatim>\<open>None\<close>.
\<close>

theorem missing_field_raises:
  "process_student_results [ann] = ([], Inl (KeyError ''software_foundation''))
   \<and> process_student_results [ann, bob] = ([], Inl (KeyError ''software_foundation''))
   \<and> process_student_results [bob, ann] = ([], Inl (KeyError ''software_foundation''))
   \<and> calculate_average ann = ([MissingDataKey ''software_foundation''], Inr None)"
proof -
  have "calculate_average ann = ([MissingDataKey ''software_foundation''], Inr None)"
    by (simp add: ann_def calculate_average_def scores_total_def and_then_def getitem_def)
  then show ?thesis
    by (simp add: process_student_results_def evaluate_ann evaluate_bob)
qed



text \<open>
  C9. Whenever \<^verbatim>\<open>process_student_results\<close> returns, the name and the five subject
  scores of the i-th result are those of the i-th input record.
\<close>

theorem scores_preserved:
  "process_student_results students = (out, Inr results) \<Longrightarrow>
     list_all2 same_fields students results"
proof -
  assume "process_student_results students = (out, Inr results)"
  then have "process_loop students [] [] = (out, Inr results)"
    by (simp add: process_student_results_def)
  from process_loop_pairs [OF this] have
    "list_all2 (\<lambda>s r. \<exists>msgs. evaluate s = (msgs, Inr (Some r))) students results"
    by simp
  then show ?thesis
    by (rule list_all2_mono) (auto dest: evaluate_fields)
qed

theorem scores_preserved_witness:
  "list_all2 same_fields [alice, bob] [alice_results, bob_results]
   \<and> map_of bob ''data_science'' = Some (data_science bob_results)"
proof -
  have p: "process_student_results [alice, bob] = ([], Inr [alice_results, bob_results])"
    by (simp add: process_student_results_def evaluate_alice evaluate_bob)
  from scores_preserved [OF p] show ?thesis
    by (simp add: same_fields_def)
qed

end
